theory Spec2Isabelle
  imports Main "HOL-Library.Word" "HOL-Library.Signed_Division"
begin

unbundle bit_operations_syntax

section \<open>Machine model\<close>

text \<open>
  The program is a Linux daemon (raw ICMP sockets, \<^verbatim>\<open>netinet/ip_icmp.h\<close>,
  \<^verbatim>\<open>libcman\<close>).  The embedding fixes what C leaves to the platform the way the
  x86 Linux ABI does: bytes are 8 bits, \<^verbatim>\<open>int\<close> is 32 bits, \<^verbatim>\<open>char\<close> is
  signed, and a \<^verbatim>\<open>uint16_t\<close> read through a pointer takes the byte at the lower
  address as its low byte.

  Unsigned C integers are words (\<open>+\<close> wraps, \<open><\<close> compares unsigned).  The
  signed type \<^verbatim>\<open>int\<close> is modelled by \<open>int\<close> with the wrap-around to 32 bits
  written out (\<open>wrap32\<close>), and \<^verbatim>\<open>char\<close> counters by \<open>int\<close> wrapped to 8 bits.
\<close>

type_synonym byte = "8 word"
type_synonym uint16_t = "16 word"
type_synonym uint32_t = "32 word"

definition wrap32 :: "int \<Rightarrow> int" where
  "wrap32 k = signed_take_bit 31 k"

definition wrap8 :: "int \<Rightarrow> int" where
  "wrap8 k = signed_take_bit 7 k"

text \<open>
  Integer division of C: truncation towards zero (\<open>sdiv\<close>).  Division by zero and
  \<^verbatim>\<open>INT_MIN / -1\<close> trap (SIGFPE); the trap is the value \<open>None\<close>.
\<close>

definition c_div :: "int \<Rightarrow> int \<Rightarrow> int option" where
  "c_div a b =
     (if b = 0 \<or> (a = - (2 ^ 31) \<and> b = - 1) then None else Some (a sdiv b))"

section \<open>ping.h: result codes\<close>

definition PING_ERRNO :: int where "PING_ERRNO = - 1"
definition PING_SUCCESS :: int where "PING_SUCCESS = 0"
definition PING_TIMEOUT :: int where "PING_TIMEOUT = 1"
definition PING_HOST_UNREACH :: int where "PING_HOST_UNREACH = 2"
definition PING_HOST_NOT_FOUND :: int where "PING_HOST_NOT_FOUND = 3"
definition PING_INVALID_CHECKSUM :: int where "PING_INVALID_CHECKSUM = 4"
definition PING_INVALID_RESPONSE :: int where "PING_INVALID_RESPONSE = 5"
definition PING_INVALID_SIZE :: int where "PING_INVALID_SIZE = 6"
definition PING_INVALID_ID :: int where "PING_INVALID_ID = 7"

lemmas ping_codes =
  PING_ERRNO_def PING_SUCCESS_def PING_TIMEOUT_def PING_HOST_UNREACH_def
  PING_HOST_NOT_FOUND_def PING_INVALID_CHECKSUM_def PING_INVALID_RESPONSE_def
  PING_INVALID_SIZE_def PING_INVALID_ID_def

section \<open>ping.c: icmp\_checksum\<close>

text \<open>
  \<^verbatim>\<open>
  uint32_t remain = buflen, sum = 0;
  char *data = (char *)buf;
  while (remain > 1) { sum += *((uint16_t *)data); data += 2; remain -= 2; }
  if (remain) sum += *data;
  \<close>
  The buffer is the list of its \<^verbatim>\<open>buflen\<close> bytes.  The loop adds one 16-bit word
  per pair of bytes; the byte left over is read through a \<^verbatim>\<open>char *\<close>, so it is
  sign-extended (\<open>scast\<close>) before it is added to the unsigned sum.  The
  variable \<^verbatim>\<open>sum\<close> of the source is \<open>acc\<close> here.
\<close>

definition word_at :: "byte \<Rightarrow> byte \<Rightarrow> uint16_t" where
  "word_at lo hi = ucast lo OR push_bit 8 (ucast hi)"

fun icmp_sum :: "byte list \<Rightarrow> uint32_t \<Rightarrow> uint32_t" where
  "icmp_sum (lo # hi # data) acc = icmp_sum data (acc + ucast (word_at lo hi))"
| "icmp_sum [b] acc = acc + scast b"
| "icmp_sum [] acc = acc"

text \<open>
  \<^verbatim>\<open>
  sum = (sum>>16)+(sum&0xffff);
  sum += (sum>>16);
  return (uint16_t)((~sum)&0xffff);
  \<close>
\<close>

definition icmp_checksum :: "byte list \<Rightarrow> uint16_t" where
  "icmp_checksum buf =
     (let acc = icmp_sum buf 0;
          acc = drop_bit 16 acc + (acc AND 0xffff);
          acc = acc + drop_bit 16 acc
      in ucast ((NOT acc) AND 0xffff))"

section \<open>ping.c: icmp\_ping\_strerror\<close>

text \<open>
  The texts of \<^verbatim>\<open>strerror\<close> belong to the C library: the function is a
  parameter, and so is the current value of \<^verbatim>\<open>errno\<close>.  \<^verbatim>\<open>ETIMEDOUT\<close> and
  \<^verbatim>\<open>EHOSTUNREACH\<close> have their Linux values.  \<open>show_int\<close> is what \<^verbatim>\<open>%d\<close>
  prints.
\<close>

definition EINVAL :: int where "EINVAL = 22"
definition ETIMEDOUT :: int where "ETIMEDOUT = 110"
definition EHOSTUNREACH :: int where "EHOSTUNREACH = 113"

definition digit_char :: "nat \<Rightarrow> char" where
  "digit_char d = ''0123456789'' ! d"

function show_nat :: "nat \<Rightarrow> string" where
  "show_nat n =
     (if n < 10 then [digit_char n] else show_nat (n div 10) @ [digit_char (n mod 10)])"
  by pat_completeness auto
termination
  by (relation "measure id") auto

declare show_nat.simps [simp del]

definition show_int :: "int \<Rightarrow> string" where
  "show_int k = (if k < 0 then CHR ''-'' # show_nat (nat (- k)) else show_nat (nat k))"

text \<open>
  A case of the \<^verbatim>\<open>switch\<close> either returns a text or leaves the switch with
  \<^verbatim>\<open>break\<close>; \<open>Switch_break\<close> carries what the case has formatted into the static
  buffer, if anything.  The cases are in the order of the source.  None of the
  texts reaches the 80 bytes of the buffer, so \<^verbatim>\<open>snprintf\<close> never cuts one.
\<close>

datatype switch_exit = Switch_return string | Switch_break "string option"

definition strerror_switch :: "(int \<Rightarrow> string) \<Rightarrow> int \<Rightarrow> int \<Rightarrow> switch_exit" where
  "strerror_switch strerror cur_errno rv =
     (if rv = PING_ERRNO then Switch_return (strerror cur_errno)
      else if rv = PING_SUCCESS then Switch_return (strerror 0)
      else if rv = PING_TIMEOUT then Switch_return (strerror ETIMEDOUT)
      else if rv = PING_HOST_UNREACH then Switch_return (strerror EHOSTUNREACH)
      else if rv = PING_HOST_NOT_FOUND then Switch_return ''Host not found''
      else if rv = PING_INVALID_CHECKSUM then Switch_break (Some ''Invalid checksum'')
      else if rv = PING_INVALID_SIZE then Switch_return ''Invalid size of reply packet''
      else if rv = PING_INVALID_RESPONSE then Switch_return ''Invalid response''
      else if rv = PING_INVALID_ID then Switch_return ''Invalid ID in response''
      else Switch_break None)"

text \<open>
  After the switch: \<^verbatim>\<open>snprintf(buf, sizeof(buf), "Unkown (%d)", rv); return buf;\<close>
\<close>

definition icmp_ping_strerror :: "(int \<Rightarrow> string) \<Rightarrow> int \<Rightarrow> int \<Rightarrow> string" where
  "icmp_ping_strerror strerror cur_errno rv =
     (case strerror_switch strerror cur_errno rv of
        Switch_return text \<Rightarrow> text
      | Switch_break _ \<Rightarrow> ''Unkown ('' @ show_int rv @ '')'')"

section \<open>ping.c: icmp\_ping\_getaddr\<close>

text \<open>
  \<^verbatim>\<open>inet_pton\<close> and \<^verbatim>\<open>gethostbyname\<close> belong to the C library.  \<open>inet_pton\<close>
  is a parameter: it gives the return value of the call and the address the call
  stores when that value is positive.  The resolver is a script: the list of what
  the successive calls of \<^verbatim>\<open>gethostbyname\<close> answer, an address or \<^verbatim>\<open>NULL\<close> with
  a value of \<^verbatim>\<open>h_errno\<close> (the constants of \<^verbatim>\<open>netdb.h\<close>).  A call that finds the
  script empty has not returned.

  The result is the list of the names handed to \<^verbatim>\<open>gethostbyname\<close>, one per call,
  and, when the function returns, its return value and \<^verbatim>\<open>sin_send->sin_addr\<close>
  (zero from the \<^verbatim>\<open>memset\<close> unless an address was stored).
\<close>

type_synonym in_addr = "32 word"

definition HOST_NOT_FOUND :: int where "HOST_NOT_FOUND = 1"
definition TRY_AGAIN :: int where "TRY_AGAIN = 2"
definition NO_RECOVERY :: int where "NO_RECOVERY = 3"
definition NO_ADDRESS :: int where "NO_ADDRESS = 4"

datatype hostent_reply = Hostent in_addr | Null int

definition isdigit :: "char \<Rightarrow> bool" where
  "isdigit c \<longleftrightarrow> c \<in> set ''0123456789''"

text \<open>\<^verbatim>\<open>hostname[0]\<close>: the terminating NUL when the string is empty.\<close>

definition first_char :: "string \<Rightarrow> char" where
  "first_char hostname = (case hostname of [] \<Rightarrow> CHR 0x00 | c # _ \<Rightarrow> c)"

fun gethost_loop ::
  "string \<Rightarrow> hostent_reply list \<Rightarrow> string list \<Rightarrow> string list \<times> (int \<times> in_addr) option"
where
  "gethost_loop hostname [] asked = (asked @ [hostname], None)"
| "gethost_loop hostname (Hostent h_addr # replies) asked =
     (asked @ [hostname], Some (0, h_addr))"
| "gethost_loop hostname (Null h_errno # replies) asked =
     (if h_errno = TRY_AGAIN then gethost_loop hostname replies (asked @ [hostname])
      else if h_errno = HOST_NOT_FOUND \<or> h_errno = NO_ADDRESS \<or> h_errno = NO_RECOVERY
      then (asked @ [hostname], Some (PING_HOST_NOT_FOUND, 0))
      else (asked @ [hostname], Some (- 1, 0)))"

definition icmp_ping_getaddr ::
  "(string \<Rightarrow> int \<times> in_addr) \<Rightarrow> string \<Rightarrow> hostent_reply list
     \<Rightarrow> string list \<times> (int \<times> in_addr) option"
where
  "icmp_ping_getaddr inet_pton hostname replies =
     (if isdigit (first_char hostname) \<and> fst (inet_pton hostname) > 0
      then ([], Some (0, snd (inet_pton hostname)))
      else gethost_loop hostname replies [])"

section \<open>ping.c: icmp\_ping\_addrfd\<close>

text \<open>
  The constants of \<^verbatim>\<open>netinet/ip_icmp.h\<close>, and the layout of \<^verbatim>\<open>struct icmp\<close>
  (type at byte 0, checksum at bytes 2 and 3, identifier at bytes 4 and 5, sequence
  number at bytes 6 and 7) and of \<^verbatim>\<open>struct ip\<close> (the header length \<^verbatim>\<open>ip_hl\<close> is
  the low half of byte 0).
\<close>

definition ICMP_MINLEN :: nat where "ICMP_MINLEN = 8"
definition ICMP_ECHOREPLY :: byte where "ICMP_ECHOREPLY = 0"
definition ICMP_DEST_UNREACH :: byte where "ICMP_DEST_UNREACH = 3"
definition ICMP_ECHO :: byte where "ICMP_ECHO = 8"

text \<open>\<^verbatim>\<open>uint16_t packetlen = sizeof(uint16_t) * ICMP_MINLEN\<close>\<close>

definition packetlen :: uint16_t where
  "packetlen = of_nat (2 * ICMP_MINLEN)"

definition get16 :: "byte list \<Rightarrow> nat \<Rightarrow> uint16_t" where
  "get16 buffer i = word_at (buffer ! i) (buffer ! (i + 1))"

definition set16 :: "byte list \<Rightarrow> nat \<Rightarrow> uint16_t \<Rightarrow> byte list" where
  "set16 buffer i w = buffer[i := ucast w, i + 1 := ucast (drop_bit 8 w)]"

text \<open>\<^verbatim>\<open>(ipp->ip_hl << 2)\<close>, the offset of the ICMP header in the buffer.\<close>

definition icmp_offset :: "byte list \<Rightarrow> nat" where
  "icmp_offset buffer = 4 * unat (buffer ! 0 AND 0x0f)"

text \<open>
  The request: \<^verbatim>\<open>char buffer[256]\<close> zeroed, then type, sequence number
  (\<^verbatim>\<open>uint32_t\<close> cut to 16 bits), identifier (\<^verbatim>\<open>getpid()\<close> cut to 16 bits) and the
  checksum of the first \<^verbatim>\<open>ICMP_MINLEN\<close> bytes, in this order.
\<close>

definition echo_packet :: "int \<Rightarrow> uint32_t \<Rightarrow> byte list" where
  "echo_packet pid seq =
     (let buffer = replicate 256 0;
          buffer = buffer[0 := ICMP_ECHO];
          buffer = set16 buffer 6 (ucast seq);
          buffer = set16 buffer 4 (word_of_int pid)
      in set16 buffer 2 (icmp_checksum (take ICMP_MINLEN buffer)))"

text \<open>
  \<^verbatim>\<open>
  while ((x = sendto(...)) < packetlen)
          if (x < 0)
                  return -1;
  \<close>
  The environment is the list of what the successive calls of \<^verbatim>\<open>sendto\<close>
  return.  \<^verbatim>\<open>x\<close> is a \<^verbatim>\<open>uint32_t\<close>: the value returned is converted
  (\<open>word_of_int\<close>) and both comparisons are unsigned.
\<close>

datatype send_exit = Send_pending | Send_return int | Sent

fun send_loop :: "int list \<Rightarrow> send_exit" where
  "send_loop [] = Send_pending"
| "send_loop (r # rs) =
     (let x = (word_of_int r :: uint32_t) in
      if x < ucast packetlen then (if x < 0 then Send_return (- 1) else send_loop rs)
      else Sent)"

text \<open>
  One turn of the \<^verbatim>\<open>while (1)\<close> loop asks the environment for what \<^verbatim>\<open>select\<close>
  returns and, if \<^verbatim>\<open>recvfrom\<close> is reached, for what it returns and the bytes it
  has stored at the start of the buffer (as many as it returns, none when it
  fails).
\<close>

record wait_event =
  select_ret :: int
  recv_ret :: int
  recv_data :: "byte list"

definition recvfrom :: "byte list \<Rightarrow> byte list \<Rightarrow> byte list" where
  "recvfrom buffer data = take 256 (data @ drop (length data) buffer)"

text \<open>
  The loop, statement by statement.  \<open>None\<close>: the events are used up and the
  function has not returned.  \<^verbatim>\<open>timeout ? &tv : NULL\<close> only changes what the
  environment may answer.
\<close>

fun wait_loop :: "int \<Rightarrow> uint32_t \<Rightarrow> byte list \<Rightarrow> wait_event list \<Rightarrow> int option" where
  "wait_loop pid timeout buffer [] = None"
| "wait_loop pid timeout buffer (ev # evs) =
     (let x = (word_of_int (select_ret ev) :: uint32_t) in
      if x \<le> 0 then (if x = 0 then Some PING_TIMEOUT else Some (- 1))
      else
        let x = (word_of_int (recv_ret ev) :: uint32_t);
            buffer = recvfrom buffer (recv_data ev)
        in
        if x < 0 then Some (- 1)
        else if x < of_nat (icmp_offset buffer + ICMP_MINLEN) then
          (if timeout \<noteq> 0 then wait_loop pid timeout buffer evs
           else Some PING_INVALID_SIZE)
        else
          let packetp = icmp_offset buffer;
              checksum = get16 buffer (packetp + 2);
              buffer = set16 buffer (packetp + 2) 0
          in
          if checksum \<noteq> icmp_checksum (take ICMP_MINLEN (drop packetp buffer)) then
            (if timeout \<noteq> 0 then wait_loop pid timeout buffer evs
             else Some PING_INVALID_CHECKSUM)
          else if buffer ! packetp = ICMP_ECHO \<or> buffer ! packetp = ICMP_ECHOREPLY then
            (if uint (get16 buffer (packetp + 4)) \<noteq> pid then
               (if timeout \<noteq> 0 then wait_loop pid timeout buffer evs
                else Some PING_INVALID_ID)
             else Some PING_SUCCESS)
          else if buffer ! packetp = ICMP_DEST_UNREACH then Some PING_HOST_UNREACH
          else Some PING_INVALID_RESPONSE)"

definition icmp_ping_addrfd ::
  "int \<Rightarrow> uint32_t \<Rightarrow> uint32_t \<Rightarrow> int list \<Rightarrow> wait_event list \<Rightarrow> int option"
where
  "icmp_ping_addrfd pid seq timeout sends evs =
     (case send_loop sends of
        Send_pending \<Rightarrow> None
      | Send_return r \<Rightarrow> Some r
      | Sent \<Rightarrow> wait_loop pid timeout (echo_packet pid seq) evs)"

text \<open>
  The three validations of a reply, as conditions on the buffer \<open>b\<close> that
  \<^verbatim>\<open>recvfrom\<close> has filled and the length \<open>x\<close> it has returned; \<open>cksum_cleared b\<close>
  is the buffer once \<^verbatim>\<open>packetp->icmp_cksum = 0\<close> is done.
\<close>

definition cksum_cleared :: "byte list \<Rightarrow> byte list" where
  "cksum_cleared b = set16 b (icmp_offset b + 2) 0"

definition size_invalid :: "byte list \<Rightarrow> uint32_t \<Rightarrow> bool" where
  "size_invalid b x \<longleftrightarrow> x < of_nat (icmp_offset b + ICMP_MINLEN)"

definition cksum_invalid :: "byte list \<Rightarrow> bool" where
  "cksum_invalid b \<longleftrightarrow>
     get16 b (icmp_offset b + 2)
       \<noteq> icmp_checksum (take ICMP_MINLEN (drop (icmp_offset b) (cksum_cleared b)))"

definition icmp_type :: "byte list \<Rightarrow> byte" where
  "icmp_type b = cksum_cleared b ! icmp_offset b"

definition id_invalid :: "int \<Rightarrow> byte list \<Rightarrow> bool" where
  "id_invalid pid b \<longleftrightarrow>
     (icmp_type b = ICMP_ECHO \<or> icmp_type b = ICMP_ECHOREPLY) \<and>
     uint (get16 (cksum_cleared b) (icmp_offset b + 4)) \<noteq> pid"

section \<open>cluquorumd\_net.c: the shared variables\<close>

text \<open>
  The file-scope variables that \<^verbatim>\<open>net_lock\<close> guards, with \<^verbatim>\<open>errno\<close> of the
  calling thread beside them.  \<^verbatim>\<open>tb_ip\<close> is a string or \<^verbatim>\<open>NULL\<close>.  Logging
  (\<^verbatim>\<open>LOG\<close>) is left out: it changes none of these variables.
\<close>

record globals =
  ping_interval :: int
  declare_online :: int
  declare_offline :: int
  net_vote_alive :: int
  tb_ip :: "string option"
  errno :: int

definition initial_globals :: globals where
  "initial_globals =
     \<lparr>ping_interval = 2000000, declare_online = 1, declare_offline = 1,
      net_vote_alive = 0, tb_ip = None, errno = 0\<rparr>"

definition net_cleanup :: "globals \<Rightarrow> globals" where
  "net_cleanup s = s\<lparr>net_vote_alive := 0, tb_ip := None\<rparr>"

definition net_tiebreaker :: "globals \<Rightarrow> int" where
  "net_tiebreaker s = net_vote_alive s"

section \<open>cluquorumd\_net.c: get\_interval\_tko and net\_tiebreaker\_init\<close>

text \<open>
  Times are in microseconds.  Every operation on \<^verbatim>\<open>int\<close> is followed by its
  wrap-around; a division that traps ends the function with \<open>None\<close>.  The result
  is the return value and the shared variables after the call.
\<close>

definition get_interval_tko :: "int \<Rightarrow> int \<Rightarrow> globals \<Rightarrow> (int \<times> globals) option" where
  "get_interval_tko fo_time interval s =
     (if fo_time < 2000000 then Some (- 1, s)
      else
        case c_div fo_time interval of
          None \<Rightarrow> None
        | Some tko \<Rightarrow>
            let up_time = wrap32 (fo_time + wrap32 (3 * interval));
                down_time = wrap32 (interval * (wrap32 ((tko AND NOT 1) - 1) sdiv 2));
                interval = wrap32 (push_bit 2 interval) sdiv 3
            in
            case c_div up_time interval of
              None \<Rightarrow> None
            | Some up_time \<Rightarrow>
                (case c_div down_time interval of
                   None \<Rightarrow> None
                 | Some down_time \<Rightarrow>
                     Some (0, s\<lparr>ping_interval := interval,
                                declare_online := up_time,
                                declare_offline := down_time\<rparr>)))"

text \<open>
  \<^verbatim>\<open>net_tiebreaker_init\<close> ends with \<^verbatim>\<open>return;\<close> in a function that returns
  \<^verbatim>\<open>int\<close>: on success the value the caller sees is indeterminate.
\<close>

datatype retval = Value int | Indeterminate

definition net_tiebreaker_init ::
  "string option \<Rightarrow> int \<Rightarrow> int \<Rightarrow> globals \<Rightarrow> (retval \<times> globals) option"
where
  "net_tiebreaker_init target token interval s =
     (let s = s\<lparr>errno := EINVAL\<rparr> in
      case target of
        None \<Rightarrow> Some (Value (- 1), s)
      | Some name \<Rightarrow>
          (case get_interval_tko token interval s of
             None \<Rightarrow> None
           | Some (r, s) \<Rightarrow>
               if r < 0 then Some (Value (- 1), s)
               else Some (Indeterminate, s\<lparr>tb_ip := Some name, errno := 0\<rparr>)))"

section \<open>cluquorumd\_net.c: net\_quorum\_thread\<close>

text \<open>
  The locals that live across the turns of the loop are the two counters, of type
  \<^verbatim>\<open>char\<close>.  One turn of \<^verbatim>\<open>while (1)\<close> takes the shared variables \<open>s\<close> as the
  first read lock sees them, the value \<^verbatim>\<open>icmp_ping_host(target, 0, 1)\<close> returns,
  and \<open>env\<close>, what the other threads do to the shared variables while the ping
  runs.  It ends in one of four ways:
  \<^item> \<open>Loop_break\<close>: \<^verbatim>\<open>tb_ip\<close> is \<^verbatim>\<open>NULL\<close>, the loop is left;
  \<^item> \<open>Loop_fault\<close>: undefined behaviour (\<^verbatim>\<open>strncpy\<close> fills all 64 bytes of
    \<^verbatim>\<open>target\<close> and leaves it unterminated, or \<^verbatim>\<open>strcmp\<close> reads a \<^verbatim>\<open>tb_ip\<close>
    that has become \<^verbatim>\<open>NULL\<close>);
  \<^item> \<open>Loop_continue\<close>: \<^verbatim>\<open>restart\<close> was set, the turn ends at \<^verbatim>\<open>continue\<close>;
  \<^item> \<open>Loop_publish\<close>: the turn has written \<^verbatim>\<open>net_vote_alive\<close>.
\<close>

record voter =
  hits :: int
  misses :: int

datatype cycle =
  Loop_break | Loop_fault | Loop_continue voter globals | Loop_publish voter globals

definition net_quorum_cycle :: "voter \<Rightarrow> globals \<Rightarrow> int \<Rightarrow> (globals \<Rightarrow> globals) \<Rightarrow> cycle" where
  "net_quorum_cycle v s ping_ret env =
     (let was_alive = wrap8 (net_vote_alive s) in
      case tb_ip s of
        None \<Rightarrow> Loop_break
      | Some ip \<Rightarrow>
          if 64 \<le> length ip then Loop_fault
          else
            let target = ip;
                online = wrap8 (declare_online s);
                offline = wrap8 (declare_offline s);
                (alive, v) =
                  (if ping_ret = 0 then (1, v\<lparr>misses := 0\<rparr>) else (0, v\<lparr>hits := 0\<rparr>));
                s = env s
            in
            case tb_ip s of
              None \<Rightarrow> Loop_fault
            | Some ip \<Rightarrow>
                if ip \<noteq> target then Loop_continue v s
                else
                  let (alive, v) =
                    (if was_alive \<noteq> 0 \<and> alive = 0 then
                       (let v = v\<lparr>misses := wrap8 (misses v + 1)\<rparr> in
                        if misses v < offline then (was_alive, v) else (alive, v))
                     else if was_alive = 0 \<and> alive \<noteq> 0 then
                       (let v = v\<lparr>hits := wrap8 (hits v + 1)\<rparr> in
                        if hits v < online then (was_alive, v\<lparr>misses := 0\<rparr>)
                        else (alive, v))
                     else (alive, v))
                  in Loop_publish v (s\<lparr>net_vote_alive := alive\<rparr>))"

text \<open>
  The thread: the turns of the loop, one per event, from \<^verbatim>\<open>hits = 0, misses = 0\<close>.
  The result is the list of the values written to \<^verbatim>\<open>net_vote_alive\<close>, one per
  turn that publishes, and how the run ends: the loop was left and
  \<^verbatim>\<open>net_cleanup\<close> has run, the thread has crashed, or the events are used up
  while the thread is in its next ping.
\<close>

datatype thread_end = Exited globals | Crashed | Pinging voter globals

fun net_quorum_loop ::
  "voter \<Rightarrow> globals \<Rightarrow> (int \<times> (globals \<Rightarrow> globals)) list \<Rightarrow> int list \<times> thread_end"
where
  "net_quorum_loop v s [] =
     (case tb_ip s of None \<Rightarrow> ([], Exited (net_cleanup s)) | Some _ \<Rightarrow> ([], Pinging v s))"
| "net_quorum_loop v s ((ping_ret, env) # evs) =
     (case net_quorum_cycle v s ping_ret env of
        Loop_break \<Rightarrow> ([], Exited (net_cleanup s))
      | Loop_fault \<Rightarrow> ([], Crashed)
      | Loop_continue v s \<Rightarrow> net_quorum_loop v s evs
      | Loop_publish v s \<Rightarrow>
          (let (votes, e) = net_quorum_loop v s evs in (net_vote_alive s # votes, e)))"

definition net_quorum_thread ::
  "globals \<Rightarrow> (int \<times> (globals \<Rightarrow> globals)) list \<Rightarrow> int list \<times> thread_end"
where
  "net_quorum_thread s evs = net_quorum_loop \<lparr>hits = 0, misses = 0\<rparr> s evs"

section \<open>Example traffic\<close>

text \<open>
  Replies used to run the engine on concrete input: a 20-byte IP header (version 4,
  header length 5 words) followed by the bytes of an ICMP message, delivered by
  one \<^verbatim>\<open>select\<close> that reports the socket readable and one \<^verbatim>\<open>recvfrom\<close> that
  returns the length of the datagram.  \<open>idle\<close> is a \<^verbatim>\<open>select\<close> that returns 0.
\<close>

definition ip_header :: "byte list" where
  "ip_header = [0x45, 0, 0, 28, 0, 0, 0, 0, 64, 1, 0, 0, 10, 0, 0, 1, 10, 0, 0, 2]"

definition reply :: "byte list \<Rightarrow> wait_event" where
  "reply icmp =
     \<lparr>select_ret = 1, recv_ret = int (length (ip_header @ icmp)),
      recv_data = ip_header @ icmp\<rparr>"

definition idle :: wait_event where
  "idle = \<lparr>select_ret = 0, recv_ret = 0, recv_data = []\<rparr>"

text \<open>
  An \<^verbatim>\<open>inet_pton\<close> for the examples: it knows the literal \<open>127.0.0.1\<close> (the
  address as the four bytes lie in memory) and rejects every other name with 0.
\<close>

definition inet_pton_loopback :: "string \<Rightarrow> int \<times> in_addr" where
  "inet_pton_loopback name = (if name = ''127.0.0.1'' then (1, 0x0100007f) else (0, 0))"

text \<open>
  What another thread does to the shared variables when it replaces the target
  while the voter pings: the assignment \<^verbatim>\<open>tb_ip = strdup(target)\<close>.
\<close>

definition retarget :: "string \<Rightarrow> globals \<Rightarrow> globals" where
  "retarget name s = s\<lparr>tb_ip := Some name\<rparr>"

section \<open>Arithmetic of the C operators\<close>

lemma wrap32_id: "- (2 ^ 31) \<le> k \<Longrightarrow> k < 2 ^ 31 \<Longrightarrow> wrap32 k = k"
  unfolding wrap32_def by (rule signed_take_bit_int_eq_self)

lemma sdiv_nonneg: "0 \<le> a \<Longrightarrow> 0 < b \<Longrightarrow> (a::int) sdiv b = a div b"
  by (simp add: signed_divide_int_def sgn_if)

lemma c_div_pos: "0 \<le> a \<Longrightarrow> 0 < b \<Longrightarrow> c_div a b = Some (a div b)"
  by (simp add: c_div_def sdiv_nonneg)

lemma and_not_one: "(k::int) AND NOT 1 = 2 * (k div 2)"
  by (rule bit_eqI) (auto simp add: bit_simps bit_0 simp flip: bit_Suc)

lemma half_down: "(2 * (m::int) - 1) sdiv 2 = (if m \<le> 0 then m else m - 1)"
  by (auto simp add: signed_divide_int_def sgn_if)

lemma div_times_le: "0 < n \<Longrightarrow> (a::int) div n * n \<le> a"
  using div_mult_mod_eq [of a n] pos_mod_sign [of n a] by linarith

lemma div_times_gt: "0 < n \<Longrightarrow> (a::int) < a div n * n + n"
  using div_mult_mod_eq [of a n] pos_mod_bound [of n a] by linarith

section \<open>The threshold calculator\<close>

text \<open>
  The time budget for declaring the tiebreaker offline,
  \<^verbatim>\<open>_interval * (((_tko&~1)-1) / 2)\<close>, is not negative and stays below the
  failover time.  When \<^verbatim>\<open>_tko\<close> is 0 or 1 the inner quotient is \<open>-1 / 2\<close>, which
  C truncates to 0.
\<close>

lemma down_time_bounds:
  fixes fo_time interval :: int
  assumes fo: "0 < fo_time" and i: "1 \<le> interval"
  defines "q \<equiv> ((fo_time div interval AND NOT 1) - 1) sdiv 2"
  shows "0 \<le> q" and "interval * q < fo_time"
proof -
  let ?tko = "fo_time div interval"
  let ?m = "?tko div 2"
  have i0: "0 < interval" using i by simp
  have tko: "0 \<le> ?tko" using fo pos_imp_zdiv_nonneg_iff [OF i0, of fo_time] by simp
  have m: "0 \<le> ?m" using tko by simp
  have q: "q = (if ?m \<le> 0 then ?m else ?m - 1)"
    unfolding q_def and_not_one by (rule half_down)
  show "0 \<le> q" using q m by auto
  have le: "?tko * interval \<le> fo_time" using i by (intro div_times_le) simp
  show "interval * q < fo_time"
  proof (cases "?m \<le> 0")
    case True
    then show ?thesis using q fo m by simp
  next
    case False
    then have "q + 1 \<le> ?tko" using q tko by simp
    then have "(q + 1) * interval \<le> ?tko * interval"
      using i by (intro mult_right_mono) simp_all
    then show ?thesis using le i by (simp add: algebra_simps)
  qed
qed

lemma new_interval_bounds:
  assumes i: "1 \<le> (interval::int)"
  shows "0 < 4 * interval div 3" and "4 * interval div 3 \<le> 3 * interval"
  using i by simp_all

text \<open>
  Claim C2.  For every configuration that \<^verbatim>\<open>get_interval_tko\<close> accepts (failover
  time of at least 2 seconds, base interval of at least 1 microsecond, and
  \<^verbatim>\<open>fo_time + 3 * _interval\<close> and \<^verbatim>\<open>_interval << 2\<close> within the range of
  \<^verbatim>\<open>int\<close>), the call returns 0 and the values it publishes satisfy
  \<open>declare_offline * ping_interval < fo_time \<le> declare_online * ping_interval\<close>.
\<close>

theorem get_interval_tko_window:
  assumes fo: "2000000 \<le> fo_time" and i: "1 \<le> interval"
    and up: "fo_time + 3 * interval < 2 ^ 31" and sh: "4 * interval < 2 ^ 31"
  shows "\<exists>s'. get_interval_tko fo_time interval s = Some (0, s') \<and>
           declare_offline s' * ping_interval s' < fo_time \<and>
           fo_time \<le> declare_online s' * ping_interval s'"
proof -
  define tko where "tko = fo_time div interval"
  define q where "q = ((tko AND NOT 1) - 1) sdiv 2"
  define n where "n = 4 * interval div 3"
  have tko: "c_div fo_time interval = Some tko"
    unfolding tko_def using fo i by (intro c_div_pos) simp_all
  have q0: "0 \<le> q" and qfo: "interval * q < fo_time"
    unfolding q_def tko_def using down_time_bounds [of fo_time interval] fo i by simp_all
  have n0: "0 < n" and n3: "n \<le> 3 * interval"
    unfolding n_def using new_interval_bounds [OF i] by simp_all
  have i0: "0 < interval" using i by simp
  have tko_ge: "0 \<le> tko"
    unfolding tko_def using fo pos_imp_zdiv_nonneg_iff [OF i0, of fo_time] by simp
  have "tko * 1 \<le> tko * interval" using tko_ge i by (intro mult_left_mono) simp_all
  moreover have "tko * interval \<le> fo_time" unfolding tko_def using i0 by (rule div_times_le)
  ultimately have tko_le: "tko \<le> fo_time" by simp
  have w1: "wrap32 (3 * interval) = 3 * interval"
    using i sh by (intro wrap32_id) simp_all
  have w2: "wrap32 (fo_time + 3 * interval) = fo_time + 3 * interval"
    using fo i up by (intro wrap32_id) simp_all
  have "0 \<le> 2 * (tko div 2) - 1 + 1" and "2 * (tko div 2) - 1 < fo_time"
    using tko_ge tko_le by presburger+
  then have w3: "wrap32 ((tko AND NOT 1) - 1) = (tko AND NOT 1) - 1"
    unfolding and_not_one using up i by (intro wrap32_id) simp_all
  have w4: "wrap32 (interval * q) = interval * q"
    using q0 i qfo up by (intro wrap32_id) (simp_all add: order_trans [of _ 0])
  have w5: "wrap32 (push_bit 2 interval) sdiv 3 = n"
  proof -
    have "wrap32 (4 * interval) = 4 * interval" using i sh by (intro wrap32_id) simp_all
    then show ?thesis using i by (simp add: push_bit_eq_mult n_def sdiv_nonneg mult.commute)
  qed
  have d1: "c_div (fo_time + 3 * interval) n = Some ((fo_time + 3 * interval) div n)"
    using fo i n0 by (intro c_div_pos) simp_all
  have d2: "c_div (interval * q) n = Some (interval * q div n)"
    using q0 i n0 by (intro c_div_pos) simp_all
  define s' where "s' = s\<lparr>ping_interval := n,
      declare_online := (fo_time + 3 * interval) div n, declare_offline := interval * q div n\<rparr>"
  have dt: "wrap32 (interval * (wrap32 ((tko AND NOT 1) - 1) sdiv 2)) = interval * q"
    by (simp only: w3 q_def [symmetric] w4)
  have nf: "\<not> fo_time < 2000000" using fo by simp
  have run: "get_interval_tko fo_time interval s = Some (0, s')"
    by (simp only: get_interval_tko_def Let_def nf if_False tko option.case
          w1 w2 dt w5 d1 d2 s'_def)
  have "interval * q div n * n \<le> interval * q" using n0 by (rule div_times_le)
  then have off: "declare_offline s' * ping_interval s' < fo_time"
    using qfo by (simp add: s'_def)
  have "fo_time + 3 * interval < (fo_time + 3 * interval) div n * n + n"
    using n0 by (rule div_times_gt)
  then have on: "fo_time \<le> declare_online s' * ping_interval s'"
    using n3 by (simp add: s'_def)
  show ?thesis using run off on by blast
qed

text \<open>
  The instance of the claim: a failover time of 10 seconds and a base interval of
  1 second.
\<close>

theorem get_interval_tko_window_witness:
  "(2000000::int) \<le> 10000000 \<and> (1::int) \<le> 1000000 \<and>
   (\<exists>s'. get_interval_tko 10000000 1000000 initial_globals = Some (0, s') \<and>
         declare_offline s' * ping_interval s' < 10000000 \<and>
         10000000 \<le> declare_online s' * ping_interval s')"
  using get_interval_tko_window [of 10000000 1000000 initial_globals] by simp

section \<open>The configuration call\<close>

lemma get_interval_tko_too_fast:
  "fo_time < 2000000 \<Longrightarrow> get_interval_tko fo_time interval s = Some (- 1, s)"
  by (simp add: get_interval_tko_def)

text \<open>
  Claim C8.  \<^verbatim>\<open>net_tiebreaker_init\<close> returns -1 with \<^verbatim>\<open>errno\<close> set to
  \<^verbatim>\<open>EINVAL\<close> when the target is absent or the token timeout is below 2 seconds,
  and such a call leaves \<^verbatim>\<open>ping_interval\<close>, \<^verbatim>\<open>declare_online\<close>,
  \<^verbatim>\<open>declare_offline\<close> and \<^verbatim>\<open>tb_ip\<close> as they were.
\<close>

theorem net_tiebreaker_init_rejects:
  assumes "target = None \<or> token < 2000000"
  shows "\<exists>s'. net_tiebreaker_init target token interval s = Some (Value (- 1), s') \<and>
           errno s' = EINVAL \<and>
           ping_interval s' = ping_interval s \<and>
           declare_online s' = declare_online s \<and>
           declare_offline s' = declare_offline s \<and>
           tb_ip s' = tb_ip s"
proof (cases target)
  case None
  then show ?thesis by (simp add: net_tiebreaker_init_def)
next
  case (Some name)
  with assms have "token < 2000000" by simp
  then show ?thesis
    using Some by (simp add: net_tiebreaker_init_def get_interval_tko_too_fast)
qed

text \<open>
  The instance of the claim: a token timeout of 1 second with a base interval of
  1 second, on a tiebreaker that was configured before.
\<close>

theorem net_tiebreaker_init_rejects_witness:
  "(1000000::int) < 2000000 \<and>
   (\<exists>s'. net_tiebreaker_init (Some ''10.0.0.1'') 1000000 1000000
            (initial_globals\<lparr>tb_ip := Some ''10.0.0.9''\<rparr>) = Some (Value (- 1), s') \<and>
         errno s' = EINVAL \<and> ping_interval s' = 2000000 \<and> declare_online s' = 1 \<and>
         declare_offline s' = 1 \<and> tb_ip s' = Some ''10.0.0.9'')"
  using net_tiebreaker_init_rejects [of "Some ''10.0.0.1''" 1000000 1000000
      "initial_globals\<lparr>tb_ip := Some ''10.0.0.9''\<rparr>"]
  by (simp add: initial_globals_def)

section \<open>The voter\<close>

text \<open>
  Claim C1.  From \<^verbatim>\<open>net_vote_alive = 0\<close> with \<^verbatim>\<open>declare_online = 3\<close> and
  \<^verbatim>\<open>declare_offline = 2\<close>, and with nobody else touching the shared variables,
  the ping results fail, fail, success, success, success make the thread publish
  0, 0, 0, 0, 1, and so do the results success, fail, success, success, success:
  the failure sets \<^verbatim>\<open>hits\<close> back to 0 and three more hits are needed.  A failure
  is any non-zero return value of the ping.
\<close>

theorem hysteresis_sequences:
  assumes "tb_ip s = Some t" and "length t < 64"
    and "declare_online s = 3" and "declare_offline s = 2" and "net_vote_alive s = 0"
    and "f1 \<noteq> 0" and "f2 \<noteq> 0"
  shows "fst (net_quorum_thread s [(f1, id), (f2, id), (0, id), (0, id), (0, id)])
           = [0, 0, 0, 0, 1] \<and>
         fst (net_quorum_thread s [(0, id), (f1, id), (0, id), (0, id), (0, id)])
           = [0, 0, 0, 0, 1]"
  using assms
  by (simp add: net_quorum_thread_def net_quorum_cycle_def Let_def wrap8_def)

theorem hysteresis_sequences_witness:
  "fst (net_quorum_thread
     (initial_globals\<lparr>declare_online := 3, declare_offline := 2, tb_ip := Some ''10.0.0.1''\<rparr>)
     [(1, id), (2, id), (0, id), (0, id), (0, id)]) = [0, 0, 0, 0, 1] \<and>
   fst (net_quorum_thread
     (initial_globals\<lparr>declare_online := 3, declare_offline := 2, tb_ip := Some ''10.0.0.1''\<rparr>)
     [(0, id), (1, id), (0, id), (0, id), (0, id)]) = [0, 0, 0, 0, 1]"
  using hysteresis_sequences
    [of "initial_globals\<lparr>declare_online := 3, declare_offline := 2,
           tb_ip := Some ''10.0.0.1''\<rparr>" "''10.0.0.1''" 1 2]
  by (simp add: initial_globals_def)

text \<open>
  Claim C4, as stated, fails.  The counters are reset where the result of the
  ping is read, before \<^verbatim>\<open>tb_ip\<close> is compared with the snapshot.  After two
  successful pings towards a threshold of 3 the thread holds \<^verbatim>\<open>hits = 2\<close>; a
  failed ping during which the target is replaced ends the turn at
  \<^verbatim>\<open>continue\<close> with \<^verbatim>\<open>hits = 0\<close>.
\<close>

theorem restart_resets_counter:
  "snd (net_quorum_thread
          (initial_globals\<lparr>declare_online := 3, tb_ip := Some ''10.0.0.1''\<rparr>)
          [(PING_SUCCESS, id), (PING_SUCCESS, id)])
     = Pinging \<lparr>hits = 2, misses = 0\<rparr>
         (initial_globals\<lparr>declare_online := 3, tb_ip := Some ''10.0.0.1''\<rparr>) \<and>
   net_quorum_cycle \<lparr>hits = 2, misses = 0\<rparr>
       (initial_globals\<lparr>declare_online := 3, tb_ip := Some ''10.0.0.1''\<rparr>)
       PING_TIMEOUT (retarget ''10.0.0.2'')
     = Loop_continue \<lparr>hits = 0, misses = 0\<rparr>
         (initial_globals\<lparr>declare_online := 3, tb_ip := Some ''10.0.0.2''\<rparr>)"
  by (simp add: net_quorum_thread_def net_quorum_cycle_def initial_globals_def Let_def
        wrap8_def ping_codes retarget_def)

text \<open>
  Claim C4, amended.  If \<^verbatim>\<open>tb_ip\<close> names another target when the ping is over,
  the turn ends at \<^verbatim>\<open>continue\<close> and writes none of the shared variables, so
  \<^verbatim>\<open>net_vote_alive\<close> is what it was; of the counters, the one that the result
  of the ping resets (\<^verbatim>\<open>misses\<close> after a success, \<^verbatim>\<open>hits\<close> after a failure) is
  0 and the other one is unchanged.
\<close>

theorem restart_publishes_nothing:
  assumes "tb_ip s = Some target" and "length target < 64"
    and "tb_ip (env s) = Some target'" and "target' \<noteq> target"
  shows "net_quorum_cycle v s ping_ret env
           = Loop_continue (if ping_ret = 0 then v\<lparr>misses := 0\<rparr> else v\<lparr>hits := 0\<rparr>) (env s)"
  using assms by (simp add: net_quorum_cycle_def Let_def)

theorem restart_publishes_nothing_witness:
  "net_quorum_cycle \<lparr>hits = 0, misses = 1\<rparr>
       (initial_globals\<lparr>net_vote_alive := 1, tb_ip := Some ''10.0.0.1''\<rparr>)
       PING_TIMEOUT (retarget ''10.0.0.2'')
     = Loop_continue \<lparr>hits = 0, misses = 1\<rparr>
         (initial_globals\<lparr>net_vote_alive := 1, tb_ip := Some ''10.0.0.2''\<rparr>)"
  using restart_publishes_nothing
    [of "initial_globals\<lparr>net_vote_alive := 1, tb_ip := Some ''10.0.0.1''\<rparr>" "''10.0.0.1''"
        "retarget ''10.0.0.2''" "''10.0.0.2''"
        "\<lparr>hits = 0, misses = 1\<rparr>" PING_TIMEOUT]
  by (simp add: initial_globals_def PING_TIMEOUT_def retarget_def)

section \<open>The checksum\<close>

lemma icmp_sum_append:
  "even (length xs) \<Longrightarrow> icmp_sum (xs @ ys) acc = icmp_sum ys (icmp_sum xs acc)"
  by (induction xs acc rule: icmp_sum.induct) simp_all

lemma low_byte_top_bit:
  fixes b :: byte
  assumes "b < 0x80"
  shows "\<not> bit b 7"
proof -
  have "unat b < 128" using assms by (simp add: word_less_nat_alt)
  then have "\<not> bit (unat b) 7" by (simp add: bit_iff_odd)
  then show ?thesis by (simp add: bit_unsigned_iff)
qed

lemma byte_bit_range: "bit (b::byte) n \<Longrightarrow> n < 8"
  using bit_imp_le_length [of b n] by simp

lemma low_byte_bits: "\<not> bit (b::byte) 7 \<Longrightarrow> bit b n \<Longrightarrow> n < 7"
  using byte_bit_range [of b n] by (cases "n = 7") auto

lemma scast_low_byte:
  fixes b :: byte
  assumes "b < 0x80"
  shows "(scast b :: uint32_t) = ucast (word_at b 0)"
  using low_byte_top_bit [OF assms]
  by (intro bit_eqI)
     (auto simp add: word_at_def bit_simps min_def split: if_splits dest: low_byte_bits)

text \<open>
  A trailing byte below \<open>0x80\<close> is added as the word it forms with a zero byte
  after it.
\<close>

lemma icmp_checksum_odd_low_byte:
  assumes "even (length buf)" and "b < 0x80"
  shows "icmp_checksum (buf @ [b]) = icmp_checksum (buf @ [b, 0])"
  using assms by (simp add: icmp_checksum_def icmp_sum_append scast_low_byte)

text \<open>
  Claim C7.  The checksum of an odd-length buffer should be the checksum of the
  buffer with one zero byte appended.  The function breaks this when the trailing
  byte is \<open>0x80\<close> or more: the byte is read as a signed \<^verbatim>\<open>char\<close> and its sign
  extension is added to the sum.  For the one-byte buffer \<open>0x80\<close> the function
  returns \<open>0x007f\<close>, for the two bytes \<open>0x80 0x00\<close> it returns \<open>0xff7f\<close>.
\<close>

theorem icmp_checksum_odd_signed_byte:
  "icmp_checksum [0x80] = 0x007f \<and> icmp_checksum [0x80, 0x00] = 0xff7f"
  by (simp add: icmp_checksum_def word_at_def)

section \<open>Resolving the target\<close>

text \<open>
  Every call of the resolver loop hands the host name to \<^verbatim>\<open>gethostbyname\<close> at
  least once, and nothing but the host name.
\<close>

lemma gethost_loop_asks:
  "\<exists>n. fst (gethost_loop hostname replies asked) = asked @ replicate (Suc n) hostname"
proof (induction replies arbitrary: asked)
  case Nil
  show ?case by (rule exI [of _ 0]) simp
next
  case (Cons r replies)
  show ?case
  proof (cases r)
    case (Hostent a)
    then show ?thesis by (intro exI [of _ 0]) simp
  next
    case (Null h)
    show ?thesis
    proof (cases "h = TRY_AGAIN")
      case True
      from Cons.IH [of "asked @ [hostname]"] obtain n where
        "fst (gethost_loop hostname replies (asked @ [hostname]))
           = (asked @ [hostname]) @ replicate (Suc n) hostname" ..
      then show ?thesis using Null True
        by (intro exI [of _ "Suc n"]) (simp add: replicate_app_Cons_same)
    next
      case False
      then show ?thesis using Null by (intro exI [of _ 0]) simp
    qed
  qed
qed

text \<open>
  Claim C5, as stated, fails.  A name that begins with a digit and is not a
  dotted quad is handed to \<^verbatim>\<open>gethostbyname\<close>: the test is
  \<^verbatim>\<open>isdigit(hostname[0]) && inet_pton(...) > 0\<close>, and when \<^verbatim>\<open>inet_pton\<close>
  returns 0 the function goes on to the resolver loop.
\<close>

theorem digit_leading_name_is_resolved:
  "icmp_ping_getaddr inet_pton_loopback ''1.invalid.example'' [Null HOST_NOT_FOUND]
     = ([''1.invalid.example''], Some (PING_HOST_NOT_FOUND, 0))"
  by (simp add: icmp_ping_getaddr_def inet_pton_loopback_def HOST_NOT_FOUND_def
        TRY_AGAIN_def)

text \<open>
  Claim C5, amended.  For a host name whose first character is a decimal digit,
  the literal is parsed first; when \<^verbatim>\<open>inet_pton\<close> succeeds the function returns
  0 with the address \<^verbatim>\<open>inet_pton\<close> has stored and \<^verbatim>\<open>gethostbyname\<close> is not
  called; when \<^verbatim>\<open>inet_pton\<close> does not succeed the function behaves as the
  resolver loop on that name, which calls \<^verbatim>\<open>gethostbyname\<close> with it.
\<close>

theorem icmp_ping_getaddr_literal_first:
  assumes "isdigit (first_char hostname)"
  shows "(0 < fst (inet_pton hostname) \<longrightarrow>
            icmp_ping_getaddr inet_pton hostname replies
              = ([], Some (0, snd (inet_pton hostname)))) \<and>
         (\<not> 0 < fst (inet_pton hostname) \<longrightarrow>
            icmp_ping_getaddr inet_pton hostname replies = gethost_loop hostname replies [] \<and>
            (\<exists>n. fst (icmp_ping_getaddr inet_pton hostname replies)
                   = replicate (Suc n) hostname))"
  using assms gethost_loop_asks [of hostname replies "[]"]
  by (simp add: icmp_ping_getaddr_def)

theorem icmp_ping_getaddr_literal_first_witness:
  "icmp_ping_getaddr inet_pton_loopback ''127.0.0.1'' [] = ([], Some (0, 0x0100007f)) \<and>
   (\<exists>n. fst (icmp_ping_getaddr inet_pton_loopback ''1.invalid.example''
               [Null TRY_AGAIN, Null HOST_NOT_FOUND])
         = replicate (Suc n) ''1.invalid.example'')"
proof -
  have d1: "isdigit (first_char ''127.0.0.1'')"
    and d2: "isdigit (first_char ''1.invalid.example'')"
    by (simp_all add: isdigit_def first_char_def)
  have p1: "0 < fst (inet_pton_loopback ''127.0.0.1'')"
    and p2: "\<not> 0 < fst (inet_pton_loopback ''1.invalid.example'')"
    by (simp_all add: inet_pton_loopback_def)
  from icmp_ping_getaddr_literal_first [OF d1, of inet_pton_loopback "[]"] p1
  have "icmp_ping_getaddr inet_pton_loopback ''127.0.0.1'' []
          = ([], Some (0, snd (inet_pton_loopback ''127.0.0.1'')))"
    by blast
  then have r1: "icmp_ping_getaddr inet_pton_loopback ''127.0.0.1'' []
                   = ([], Some (0, 0x0100007f))"
    by (simp add: inet_pton_loopback_def)
  from icmp_ping_getaddr_literal_first
    [OF d2, of inet_pton_loopback "[Null TRY_AGAIN, Null HOST_NOT_FOUND]"] p2
  have r2: "\<exists>n. fst (icmp_ping_getaddr inet_pton_loopback ''1.invalid.example''
                       [Null TRY_AGAIN, Null HOST_NOT_FOUND])
                = replicate (Suc n) ''1.invalid.example''"
    by blast
  show ?thesis using r1 r2 by blast
qed

section \<open>The ping engine\<close>

text \<open>One turn of the wait loop, with its conditions named.\<close>

lemma wait_loop_turn:
  "wait_loop pid timeout buffer (ev # evs) =
     (if (word_of_int (select_ret ev) :: uint32_t) = 0 then Some PING_TIMEOUT
      else if size_invalid (recvfrom buffer (recv_data ev)) (word_of_int (recv_ret ev)) then
        (if timeout \<noteq> 0 then wait_loop pid timeout (recvfrom buffer (recv_data ev)) evs
         else Some PING_INVALID_SIZE)
      else if cksum_invalid (recvfrom buffer (recv_data ev)) then
        (if timeout \<noteq> 0
         then wait_loop pid timeout (cksum_cleared (recvfrom buffer (recv_data ev))) evs
         else Some PING_INVALID_CHECKSUM)
      else if id_invalid pid (recvfrom buffer (recv_data ev)) then
        (if timeout \<noteq> 0
         then wait_loop pid timeout (cksum_cleared (recvfrom buffer (recv_data ev))) evs
         else Some PING_INVALID_ID)
      else if icmp_type (recvfrom buffer (recv_data ev)) = ICMP_ECHO
            \<or> icmp_type (recvfrom buffer (recv_data ev)) = ICMP_ECHOREPLY then Some PING_SUCCESS
      else if icmp_type (recvfrom buffer (recv_data ev)) = ICMP_DEST_UNREACH
      then Some PING_HOST_UNREACH
      else Some PING_INVALID_RESPONSE)"
  by (simp add: Let_def size_invalid_def cksum_invalid_def id_invalid_def icmp_type_def
        cksum_cleared_def)

lemma icmp_ping_addrfd_sent:
  "send_loop sends = Sent \<Longrightarrow>
   icmp_ping_addrfd pid seq timeout sends evs = wait_loop pid timeout (echo_packet pid seq) evs"
  by (simp add: icmp_ping_addrfd_def)

lemma send_loop_short:
  "0 \<le> r \<Longrightarrow> r < 16 \<Longrightarrow> send_loop (r # rs) = send_loop rs"
  by (simp add: Let_def packetlen_def ICMP_MINLEN_def word_less_def uint_word_of_int
        take_bit_int_eq_self)

lemma send_loop_never_returns: "send_loop sends \<noteq> Send_return r"
  by (induction sends) (simp_all add: Let_def)

lemma wait_loop_never_errno: "wait_loop pid timeout buffer evs \<noteq> Some (- 1)"
  by (induction evs arbitrary: buffer)
     (simp_all add: wait_loop_turn ping_codes del: wait_loop.simps(2))

lemma icmp_ping_addrfd_never_errno:
  "icmp_ping_addrfd pid seq timeout sends evs \<noteq> Some PING_ERRNO"
  by (simp add: icmp_ping_addrfd_def wait_loop_never_errno send_loop_never_returns
        PING_ERRNO_def split: send_exit.splits)

text \<open>
  Claim C3.  A short send is sent again (\<open>send_loop_short\<close>), but a system call
  that fails does not make the function return -1: \<^verbatim>\<open>x\<close> is unsigned, so
  \<^verbatim>\<open>x < 0\<close> never holds and the -1 of a failed call is the largest
  \<^verbatim>\<open>uint32_t\<close> (\<open>icmp_ping_addrfd_never_errno\<close>).  With \<^verbatim>\<open>sendto\<close> failing
  the function goes on to wait: it returns \<^verbatim>\<open>PING_TIMEOUT\<close> when \<^verbatim>\<open>select\<close>
  then returns 0, and \<^verbatim>\<open>PING_SUCCESS\<close> when an echo reply with its identifier
  arrives.  With \<^verbatim>\<open>select\<close> and \<^verbatim>\<open>recvfrom\<close> failing it validates the buffer
  that still holds its own request and returns \<^verbatim>\<open>PING_INVALID_CHECKSUM\<close>.
\<close>

theorem icmp_ping_addrfd_failed_syscalls:
  "icmp_ping_addrfd 1234 1 1 [- 1] [idle] = Some PING_TIMEOUT \<and>
   icmp_ping_addrfd 1234 1 0 [- 1] [reply [0, 0, 0x2c, 0xfb, 0xd2, 0x04, 1, 0]]
     = Some PING_SUCCESS \<and>
   icmp_ping_addrfd 1234 1 0 [16]
     [\<lparr>select_ret = - 1, recv_ret = - 1, recv_data = []\<rparr>] = Some PING_INVALID_CHECKSUM"
  by code_simp

text \<open>
  Claim C6.  In every turn of the wait loop of \<^verbatim>\<open>icmp_ping_addrfd\<close>: a
  \<^verbatim>\<open>select\<close> that returns 0 makes the function return \<^verbatim>\<open>PING_TIMEOUT\<close>; a
  received packet that fails the size, the checksum or the identifier validation
  makes the function, when \<^verbatim>\<open>timeout\<close> is not 0, go on with the next turn of
  the loop and, when \<^verbatim>\<open>timeout\<close> is 0, return \<^verbatim>\<open>PING_INVALID_SIZE\<close>,
  \<^verbatim>\<open>PING_INVALID_CHECKSUM\<close> or \<^verbatim>\<open>PING_INVALID_ID\<close>.  The first conjunct ties
  the loop to the function: once the request is sent, the function is the loop on
  the buffer that holds the request.
\<close>

theorem icmp_ping_addrfd_validation_modes:
  fixes ev :: wait_event and buffer :: "byte list"
  defines "b \<equiv> recvfrom buffer (recv_data ev)"
    and "x \<equiv> (word_of_int (recv_ret ev) :: uint32_t)"
    and "readable \<equiv> (word_of_int (select_ret ev) :: uint32_t) \<noteq> 0"
  shows
    "(send_loop sends = Sent \<longrightarrow>
        icmp_ping_addrfd pid seq timeout sends events
          = wait_loop pid timeout (echo_packet pid seq) events) \<and>
     (select_ret ev = 0 \<longrightarrow> wait_loop pid timeout buffer (ev # evs) = Some PING_TIMEOUT) \<and>
     (readable \<and> size_invalid b x \<longrightarrow>
        wait_loop pid timeout buffer (ev # evs)
          = (if timeout \<noteq> 0 then wait_loop pid timeout b evs else Some PING_INVALID_SIZE)) \<and>
     (readable \<and> \<not> size_invalid b x \<and> cksum_invalid b \<longrightarrow>
        wait_loop pid timeout buffer (ev # evs)
          = (if timeout \<noteq> 0 then wait_loop pid timeout (cksum_cleared b) evs
             else Some PING_INVALID_CHECKSUM)) \<and>
     (readable \<and> \<not> size_invalid b x \<and> \<not> cksum_invalid b \<and> id_invalid pid b \<longrightarrow>
        wait_loop pid timeout buffer (ev # evs)
          = (if timeout \<noteq> 0 then wait_loop pid timeout (cksum_cleared b) evs
             else Some PING_INVALID_ID))"
  unfolding b_def x_def readable_def
  by (simp add: wait_loop_turn icmp_ping_addrfd_sent del: wait_loop.simps)

text \<open>
  With \<^verbatim>\<open>timeout = 1\<close> a truncated reply, a reply with a wrong checksum and a
  reply with another identifier are each passed over, and the function returns
  \<^verbatim>\<open>PING_TIMEOUT\<close> when nothing else arrives; with \<^verbatim>\<open>timeout = 0\<close> each of
  them ends the function with its error.
\<close>

theorem icmp_ping_addrfd_validation_modes_witness:
  "icmp_ping_addrfd 1234 1 1 [16] [idle] = Some PING_TIMEOUT \<and>
   icmp_ping_addrfd 1234 1 1 [16] [reply [0, 0, 0x2c, 0xfb, 0xd2, 0x04, 1], idle]
     = Some PING_TIMEOUT \<and>
   icmp_ping_addrfd 1234 1 0 [16] [reply [0, 0, 0x2c, 0xfb, 0xd2, 0x04, 1], idle]
     = Some PING_INVALID_SIZE \<and>
   icmp_ping_addrfd 1234 1 1 [16] [reply [0, 0, 0x2c, 0xfa, 0xd2, 0x04, 1, 0], idle]
     = Some PING_TIMEOUT \<and>
   icmp_ping_addrfd 1234 1 0 [16] [reply [0, 0, 0x2c, 0xfa, 0xd2, 0x04, 1, 0], idle]
     = Some PING_INVALID_CHECKSUM \<and>
   icmp_ping_addrfd 1234 1 1 [16] [reply [0, 0, 0x2b, 0xfb, 0xd3, 0x04, 1, 0], idle]
     = Some PING_TIMEOUT \<and>
   icmp_ping_addrfd 1234 1 0 [16] [reply [0, 0, 0x2b, 0xfb, 0xd3, 0x04, 1, 0], idle]
     = Some PING_INVALID_ID"
proof -
  let ?B = "echo_packet 1234 1"
  let ?short = "reply [0, 0, 0x2c, 0xfb, 0xd2, 0x04, 1]"
  let ?badsum = "reply [0, 0, 0x2c, 0xfa, 0xd2, 0x04, 1, 0]"
  let ?badid = "reply [0, 0, 0x2b, 0xfb, 0xd3, 0x04, 1, 0]"
  note T = icmp_ping_addrfd_validation_modes
    [where pid = 1234 and seq = 1 and sends = "[16]"]
  have sent: "send_loop [16] = Sent"
    by code_simp
  have idle: "select_ret idle = 0"
    by (simp add: idle_def)
  have timed_out: "wait_loop 1234 t b [idle] = Some PING_TIMEOUT" for t b
    using T [where ev = idle and evs = "[]" and buffer = b and timeout = t] idle
    by (simp del: wait_loop.simps)
  have readable: "(word_of_int (select_ret (reply icmp)) :: uint32_t) \<noteq> 0" for icmp
    by (simp add: reply_def)
  have short: "size_invalid (recvfrom ?B (recv_data ?short)) (word_of_int (recv_ret ?short))"
    by code_simp
  have badsum:
    "\<not> size_invalid (recvfrom ?B (recv_data ?badsum)) (word_of_int (recv_ret ?badsum))"
    "cksum_invalid (recvfrom ?B (recv_data ?badsum))"
    by code_simp+
  have badid:
    "\<not> size_invalid (recvfrom ?B (recv_data ?badid)) (word_of_int (recv_ret ?badid))"
    "\<not> cksum_invalid (recvfrom ?B (recv_data ?badid))"
    "id_invalid 1234 (recvfrom ?B (recv_data ?badid))"
    by code_simp+
  have run: "icmp_ping_addrfd 1234 1 t [16] evs = wait_loop 1234 t ?B evs" for t evs
    using T [where timeout = t and events = evs] sent by (simp del: wait_loop.simps)
  have r1: "wait_loop 1234 t ?B [?short, idle]
             = (if t \<noteq> 0 then Some PING_TIMEOUT else Some PING_INVALID_SIZE)" for t
    using T [where ev = ?short and evs = "[idle]" and buffer = ?B and timeout = t] readable short
    by (simp add: timed_out del: wait_loop.simps)
  have r2: "wait_loop 1234 t ?B [?badsum, idle]
             = (if t \<noteq> 0 then Some PING_TIMEOUT else Some PING_INVALID_CHECKSUM)" for t
    using T [where ev = ?badsum and evs = "[idle]" and buffer = ?B and timeout = t] readable badsum
    by (simp add: timed_out del: wait_loop.simps)
  have r3: "wait_loop 1234 t ?B [?badid, idle]
             = (if t \<noteq> 0 then Some PING_TIMEOUT else Some PING_INVALID_ID)" for t
    using T [where ev = ?badid and evs = "[idle]" and buffer = ?B and timeout = t] readable badid
    by (simp add: timed_out del: wait_loop.simps)
  show ?thesis
    by (simp add: run timed_out r1 r2 r3 del: wait_loop.simps)
qed


text \<open>
  Claim C9.  In every turn of the wait loop, for every \<^verbatim>\<open>timeout\<close> and whatever
  the identifier of the process and of the packet: a packet that passes the size
  and checksum validations and has type \<^verbatim>\<open>ICMP_DEST_UNREACH\<close> makes the
  function return \<^verbatim>\<open>PING_HOST_UNREACH\<close>, and one whose type is none of
  \<^verbatim>\<open>ICMP_ECHO\<close>, \<^verbatim>\<open>ICMP_ECHOREPLY\<close>, \<^verbatim>\<open>ICMP_DEST_UNREACH\<close> makes it
  return \<^verbatim>\<open>PING_INVALID_RESPONSE\<close>.
\<close>

theorem icmp_type_dispatch_final:
  fixes ev :: wait_event and buffer :: "byte list"
  defines "b \<equiv> recvfrom buffer (recv_data ev)"
    and "x \<equiv> (word_of_int (recv_ret ev) :: uint32_t)"
    and "readable \<equiv> (word_of_int (select_ret ev) :: uint32_t) \<noteq> 0"
  shows
    "(send_loop sends = Sent \<longrightarrow>
        icmp_ping_addrfd pid seq timeout sends events
          = wait_loop pid timeout (echo_packet pid seq) events) \<and>
     (readable \<and> \<not> size_invalid b x \<and> \<not> cksum_invalid b \<and>
      icmp_type b = ICMP_DEST_UNREACH \<longrightarrow>
        wait_loop pid timeout buffer (ev # evs) = Some PING_HOST_UNREACH) \<and>
     (readable \<and> \<not> size_invalid b x \<and> \<not> cksum_invalid b \<and>
      icmp_type b \<noteq> ICMP_ECHO \<and> icmp_type b \<noteq> ICMP_ECHOREPLY \<and>
      icmp_type b \<noteq> ICMP_DEST_UNREACH \<longrightarrow>
        wait_loop pid timeout buffer (ev # evs) = Some PING_INVALID_RESPONSE)"
  unfolding b_def x_def readable_def
  by (simp add: wait_loop_turn icmp_ping_addrfd_sent id_invalid_def
        ICMP_DEST_UNREACH_def ICMP_ECHO_def ICMP_ECHOREPLY_def del: wait_loop.simps)


text \<open>
  A destination-unreachable message and a time-exceeded message (type 11), both
  with identifier 0, for a process whose identifier is 4321.
\<close>

theorem icmp_type_dispatch_final_witness:
  "icmp_ping_addrfd 4321 1 0 [16] [reply [3, 1, 0xfc, 0xfe, 0, 0, 0, 0]] = Some PING_HOST_UNREACH \<and>
   icmp_ping_addrfd 4321 1 1 [16] [reply [3, 1, 0xfc, 0xfe, 0, 0, 0, 0]] = Some PING_HOST_UNREACH \<and>
   icmp_ping_addrfd 4321 1 0 [16] [reply [11, 0, 0xf4, 0xff, 0, 0, 0, 0]] = Some PING_INVALID_RESPONSE \<and>
   icmp_ping_addrfd 4321 1 1 [16] [reply [11, 0, 0xf4, 0xff, 0, 0, 0, 0]] = Some PING_INVALID_RESPONSE"
proof -
  let ?B = "echo_packet 4321 1"
  let ?unreach = "reply [3, 1, 0xfc, 0xfe, 0, 0, 0, 0]"
  let ?exceeded = "reply [11, 0, 0xf4, 0xff, 0, 0, 0, 0]"
  note T = icmp_type_dispatch_final
    [where pid = 4321 and seq = 1 and sends = "[16]" and evs = "[]" and buffer = ?B]
  have sent: "send_loop [16] = Sent"
    by code_simp
  have readable: "(word_of_int (select_ret (reply icmp)) :: uint32_t) \<noteq> 0" for icmp
    by (simp add: reply_def)
  have unreach:
    "\<not> size_invalid (recvfrom ?B (recv_data ?unreach)) (word_of_int (recv_ret ?unreach))"
    "\<not> cksum_invalid (recvfrom ?B (recv_data ?unreach))"
    "icmp_type (recvfrom ?B (recv_data ?unreach)) = ICMP_DEST_UNREACH"
    by code_simp+
  have exceeded:
    "\<not> size_invalid (recvfrom ?B (recv_data ?exceeded)) (word_of_int (recv_ret ?exceeded))"
    "\<not> cksum_invalid (recvfrom ?B (recv_data ?exceeded))"
    "icmp_type (recvfrom ?B (recv_data ?exceeded)) \<noteq> ICMP_ECHO"
    "icmp_type (recvfrom ?B (recv_data ?exceeded)) \<noteq> ICMP_ECHOREPLY"
    "icmp_type (recvfrom ?B (recv_data ?exceeded)) \<noteq> ICMP_DEST_UNREACH"
    by code_simp+
  have run: "icmp_ping_addrfd 4321 1 t [16] evs = wait_loop 4321 t ?B evs" for t evs
    using T [where timeout = t and events = evs] sent by (simp del: wait_loop.simps)
  have r1: "wait_loop 4321 t ?B [?unreach] = Some PING_HOST_UNREACH" for t
    using T [where ev = ?unreach and timeout = t] readable unreach
    by (simp del: wait_loop.simps)
  have r2: "wait_loop 4321 t ?B [?exceeded] = Some PING_INVALID_RESPONSE" for t
    using T [where ev = ?exceeded and timeout = t] readable exceeded
    by (simp del: wait_loop.simps)
  show ?thesis
    by (simp add: run r1 r2 del: wait_loop.simps)
qed


section \<open>The texts of the results\<close>

text \<open>
  Claim C10.  \<^verbatim>\<open>icmp_ping_strerror\<close> returns the text of its kind for every
  result code of \<^verbatim>\<open>ping.h\<close> except \<^verbatim>\<open>PING_INVALID_CHECKSUM\<close>: that case
  formats \<open>Invalid checksum\<close>, leaves the switch and returns \<open>Unkown (4)\<close>.
\<close>

theorem icmp_ping_strerror_texts:
  "icmp_ping_strerror strerror e PING_ERRNO = strerror e \<and>
   icmp_ping_strerror strerror e PING_SUCCESS = strerror 0 \<and>
   icmp_ping_strerror strerror e PING_TIMEOUT = strerror ETIMEDOUT \<and>
   icmp_ping_strerror strerror e PING_HOST_UNREACH = strerror EHOSTUNREACH \<and>
   icmp_ping_strerror strerror e PING_HOST_NOT_FOUND = ''Host not found'' \<and>
   icmp_ping_strerror strerror e PING_INVALID_RESPONSE = ''Invalid response'' \<and>
   icmp_ping_strerror strerror e PING_INVALID_SIZE = ''Invalid size of reply packet'' \<and>
   icmp_ping_strerror strerror e PING_INVALID_ID = ''Invalid ID in response'' \<and>
   strerror_switch strerror e PING_INVALID_CHECKSUM
     = Switch_break (Some ''Invalid checksum'') \<and>
   icmp_ping_strerror strerror e PING_INVALID_CHECKSUM = ''Unkown (4)''"
  by (simp add: icmp_ping_strerror_def strerror_switch_def ping_codes show_int_def
        show_nat.simps digit_char_def)

end
